theory Spec2Isabelle
  imports Complex_Main "HOL-Library.Word"
begin

section \<open>Data model\<close>

text \<open>
  The capture pipeline of \<^verbatim>\<open>log2bin_script.py\<close>: a bounded queue between the driver's
  callback thread and a writer thread, a lock-protected status record, and the main
  thread's supervision of the writer. Bytes are 8-bit words; a queue entry is either a
  chunk or the stop signal, which the source represents by \<^verbatim>\<open>None\<close>.
\<close>

type_synonym byte = "8 word"
type_synonym bytes = "byte list"
type_synonym item = "bytes option"

definition stop_writer_signal :: item where
  "stop_writer_signal = None"

text \<open>
  Every line written to standard error and every error string stored in the status
  record is an f-string of the source. One constructor stands for each template, its
  arguments are the interpolated values; \<open>Text\<close> is the text of an exception raised by
  the operating system.
\<close>

datatype message =
    Text string
  | QueueFull
  | DllError int string
  | OpenFailed nat nat message
  | OpenExhausted message
  | FlushFailed message
  | WriteFailed message
  | ReopenFailed message
  | UnknownException message
  | InitFailed message
  | ThreadInconsistent "message option"
  | ThreadEnded "message option"

text \<open>
  The handlers of the source tell \<^verbatim>\<open>IOError\<close> from every other exception; the
  argument is \<^verbatim>\<open>str(e)\<close>.
\<close>

datatype exn = IOError message | OtherException message

fun str :: "exn \<Rightarrow> message" where
  "str (IOError m) = m"
| "str (OtherException m) = m"

datatype outcome = Success | Fail exn

datatype mode = WB | AB

datatype phase = Starting | Running | Finished

datatype control = Continue | Break

record WriterThreadStatus =
  running :: bool
  error :: "message option"
  bytes_written :: nat
  last_heartbeat :: real

record file_object =
  path :: string
  closed :: bool

text \<open>
  The state of the process. The first group is the module-level state and the world
  around it: the files on disk (written through, buffering is not modelled), the file
  objects created so far (a handle is an index into \<open>handles\<close>), the outcomes the
  operating system will give to the coming calls of \<^verbatim>\<open>open\<close>, \<^verbatim>\<open>write\<close>, \<^verbatim>\<open>flush\<close>
  and \<^verbatim>\<open>close\<close>, one script for each (a call succeeds once its script is used up),
  the wall clock read by \<^verbatim>\<open>time.time()\<close>, and the lines printed to
  standard error (standard output is not modelled). The second group holds the writer
  thread: whether it runs, and the local variables of its activation of
  \<^verbatim>\<open>writer_thread_func\<close>; \<open>with_handle\<close> is the file object that the
  \<^verbatim>\<open>with\<close> statement of line 161 evaluated and will close on exit.
\<close>

record system =
  data_queue :: "item list"
  writer_status :: WriterThreadStatus
  files :: "string \<rightharpoonup> bytes"
  handles :: "file_object list"
  open_script :: "outcome list"
  write_script :: "outcome list"
  flush_script :: "outcome list"
  close_script :: "outcome list"
  clock :: real
  stderr :: "message list"
  phase :: phase
  filename :: string
  written_bytes_total :: nat
  last_heartbeat_local :: real
  last_flush :: real
  file_handle :: nat
  with_handle :: nat

section \<open>The status record\<close>

definition init_status :: WriterThreadStatus where
  "init_status = \<lparr>running = False, error = None, bytes_written = 0, last_heartbeat = 0\<rparr>"

text \<open>
  \<^verbatim>\<open>WriterThreadStatus.update\<close>: an argument left at its default \<^verbatim>\<open>None\<close> keeps the
  field; the heartbeat is set on every call. \<open>now\<close> is the value of \<^verbatim>\<open>time.time()\<close>.
  The body runs under the lock, so it is one atomic transition here.
\<close>

definition update ::
  "real \<Rightarrow> bool option \<Rightarrow> message option \<Rightarrow> nat option \<Rightarrow> WriterThreadStatus \<Rightarrow> WriterThreadStatus"
where
  "update now running_arg error_arg bytes_written_arg st =
     st\<lparr>running := (case running_arg of None \<Rightarrow> running st | Some r \<Rightarrow> r),
        error := (case error_arg of None \<Rightarrow> error st | Some e \<Rightarrow> Some e),
        bytes_written := (case bytes_written_arg of None \<Rightarrow> bytes_written st | Some b \<Rightarrow> b),
        last_heartbeat := now\<rparr>"

definition is_alive :: "real \<Rightarrow> real \<Rightarrow> WriterThreadStatus \<Rightarrow> bool" where
  "is_alive now timeout_seconds st = (running st \<and> now - last_heartbeat st < timeout_seconds)"

definition status_update :: "bool option \<Rightarrow> message option \<Rightarrow> nat option \<Rightarrow> system \<Rightarrow> system" where
  "status_update r e b s = s\<lparr>writer_status := update (clock s) r e b (writer_status s)\<rparr>"

definition report :: "message \<Rightarrow> system \<Rightarrow> system" where
  "report m s = s\<lparr>stderr := stderr s @ [m]\<rparr>"

definition sleep :: "real \<Rightarrow> system \<Rightarrow> system" where
  "sleep d s = s\<lparr>clock := clock s + d\<rparr>"

section \<open>The bounded queue and the callbacks\<close>

definition maxsize :: nat where
  "maxsize = 4096"

text \<open>\<^verbatim>\<open>Queue.put_nowait\<close>: \<open>None\<close> is the exception \<^verbatim>\<open>queue.Full\<close>.\<close>

definition put_nowait :: "item \<Rightarrow> item list \<Rightarrow> item list option" where
  "put_nowait x q = (if maxsize \<le> length q then None else Some (q @ [x]))"

text \<open>
  \<^verbatim>\<open>py_data_callback\<close>: \<open>buffer_ptr\<close> is \<open>None\<close> for a null pointer and otherwise the
  memory it points to; the chunk is a copy of its first \<open>len\<close> bytes.
\<close>

definition py_data_callback :: "bytes option \<Rightarrow> nat \<Rightarrow> system \<Rightarrow> system" where
  "py_data_callback buffer_ptr len s =
     (case buffer_ptr of
        None \<Rightarrow> s
      | Some buffer \<Rightarrow>
          if 0 < len then
            (let data_bytes = take len buffer in
             case put_nowait (Some data_bytes) (data_queue s) of
               Some q \<Rightarrow> s\<lparr>data_queue := q\<rparr>
             | None \<Rightarrow> report QueueFull s)
          else s)"

text \<open>
  The message of both error callbacks (line 117, and line 43 of
  \<^verbatim>\<open>bes_log_to_bin_script.py\<close>): \<^verbatim>\<open>error_message_ptr.decode(..., errors='replace') if
  error_message_ptr else "N/A"\<close>. The pointer is falsy when it is null and when it holds
  no byte; decoding with replacement cannot fail.
\<close>

definition decode_message :: "string option \<Rightarrow> string" where
  "decode_message error_message_ptr =
     (case error_message_ptr of
        None \<Rightarrow> ''N/A''
      | Some m \<Rightarrow> if m = [] then ''N/A'' else m)"





section \<open>File operations\<close>

text \<open>The outcome of the next call, given the script of the calls to come.\<close>

definition next_outcome :: "outcome list \<Rightarrow> outcome" where
  "next_outcome script = (case script of [] \<Rightarrow> Success | r # _ \<Rightarrow> r)"

definition is_open :: "nat \<Rightarrow> system \<Rightarrow> bool" where
  "is_open h s = (h < length (handles s) \<and> \<not> closed (handles s ! h))"

definition content :: "string \<Rightarrow> system \<Rightarrow> bytes" where
  "content p s = (case files s p of None \<Rightarrow> [] | Some c \<Rightarrow> c)"

text \<open>
  \<^verbatim>\<open>open(filename, 'wb')\<close> creates the file or truncates it; \<^verbatim>\<open>open(filename, 'ab')\<close>
  creates it or keeps what it holds. The result is the new handle or the exception.
\<close>

definition open_file :: "string \<Rightarrow> mode \<Rightarrow> system \<Rightarrow> (exn + nat) \<times> system" where
  "open_file p m s =
     (let s1 = s\<lparr>open_script := tl (open_script s)\<rparr>
      in case next_outcome (open_script s) of
           Fail e \<Rightarrow> (Inl e, s1)
         | Success \<Rightarrow>
             (Inr (length (handles s)),
              s1\<lparr>files := (files s)(p \<mapsto> (case m of WB \<Rightarrow> [] | AB \<Rightarrow> content p s)),
                 handles := handles s @ [\<lparr>path = p, closed = False\<rparr>]\<rparr>))"

text \<open>Writing to or flushing a closed file raises \<^verbatim>\<open>ValueError\<close>, not an \<^verbatim>\<open>IOError\<close>.\<close>

definition file_write :: "nat \<Rightarrow> bytes \<Rightarrow> system \<Rightarrow> exn option \<times> system" where
  "file_write h data s =
     (if is_open h s then
        (let s1 = s\<lparr>write_script := tl (write_script s)\<rparr>
         in case next_outcome (write_script s) of
              Fail e \<Rightarrow> (Some e, s1)
            | Success \<Rightarrow>
                (let p = path (handles s ! h)
                 in (None, s1\<lparr>files := (files s)(p \<mapsto> content p s @ data)\<rparr>)))
      else (Some (OtherException (Text ''write to closed file'')), s))"

definition file_flush :: "nat \<Rightarrow> system \<Rightarrow> exn option \<times> system" where
  "file_flush h s =
     (if is_open h s then
        (let s1 = s\<lparr>flush_script := tl (flush_script s)\<rparr>
         in case next_outcome (flush_script s) of
              Fail e \<Rightarrow> (Some e, s1)
            | Success \<Rightarrow> (None, s1))
      else (Some (OtherException (Text ''flush of closed file'')), s))"

text \<open>
  Closing a closed file does nothing. Closing an open one releases it even when the
  final flush fails and the exception is raised.
\<close>

definition file_close :: "nat \<Rightarrow> system \<Rightarrow> exn option \<times> system" where
  "file_close h s =
     (if is_open h s then
        (let s1 = s\<lparr>close_script := tl (close_script s),
                    handles := (handles s)[h := (handles s ! h)\<lparr>closed := True\<rparr>]\<rparr>
         in case next_outcome (close_script s) of
              Fail e \<Rightarrow> (Some e, s1)
            | Success \<Rightarrow> (None, s1))
      else (None, s))"

section \<open>The writer thread\<close>

definition max_retry_count :: nat where
  "max_retry_count = 3"

definition heartbeat_interval :: real where
  "heartbeat_interval = 1"

definition flush_interval :: real where
  "flush_interval = 5"

text \<open>
  Lines 227-234, the handlers around the whole body: \<open>ex\<close> is the exception that left
  the \<^verbatim>\<open>try\<close> block, if any. The \<^verbatim>\<open>finally\<close> clause runs in both cases and the thread
  ends.
\<close>

definition finish :: "exn option \<Rightarrow> system \<Rightarrow> system" where
  "finish ex s =
     (let s1 = (case ex of
                  None \<Rightarrow> s
                | Some e \<Rightarrow>
                    status_update (Some False) (Some (InitFailed (str e))) None
                      (report (InitFailed (str e)) s))
      in (status_update (Some False) None (Some (written_bytes_total s1)) s1)\<lparr>phase := Finished\<rparr>)"

text \<open>
  Leaving the \<^verbatim>\<open>with\<close> statement of line 161, by \<^verbatim>\<open>break\<close> (\<open>ex = None\<close>) or with an
  exception in flight: the file object the statement was entered with is closed, and an
  exception raised by that close replaces the one in flight.
\<close>

definition leave_with :: "exn option \<Rightarrow> system \<Rightarrow> system" where
  "leave_with ex s =
     (case file_close (with_handle s) s of
        (Some e, s1) \<Rightarrow> finish (Some e) s1
      | (None, s1) \<Rightarrow> finish ex s1)"

text \<open>
  Lines 146-159, the loop that opens the output file. The result is the handle or the
  exception that leaves the loop. When the loop ends with no file the \<^verbatim>\<open>with\<close>
  statement raises on \<^verbatim>\<open>None\<close>.
\<close>

function open_loop :: "nat \<Rightarrow> system \<Rightarrow> (exn + nat) \<times> system" where
  "open_loop retry_count s =
     (if retry_count < max_retry_count then
        (case open_file (filename s) WB s of
           (Inr h, s1) \<Rightarrow> (Inr h, s1)
         | (Inl (OtherException e), s1) \<Rightarrow> (Inl (OtherException e), s1)
         | (Inl (IOError e), s1) \<Rightarrow>
             (let error_msg = OpenFailed (retry_count + 1) max_retry_count e;
                  s2 = status_update None (Some error_msg) None (report error_msg s1)
              in if retry_count + 1 \<ge> max_retry_count
                 then (Inl (IOError (OpenExhausted e)), s2)
                 else open_loop (retry_count + 1) (sleep 1 s2)))
      else (Inl (OtherException (Text ''__enter__'')), s))"
  by pat_completeness auto
termination
  by (relation "measure (\<lambda>(retry_count, s). max_retry_count - retry_count)") auto

declare open_loop.simps [simp del]

text \<open>Lines 130-161: the start of \<^verbatim>\<open>writer_thread_func\<close>, up to the entry of the loop.\<close>

definition writer_start :: "system \<Rightarrow> system" where
  "writer_start s =
     (let s1 = s\<lparr>written_bytes_total := 0, last_heartbeat_local := clock s, last_flush := clock s\<rparr>;
          s2 = status_update (Some True) None (Some 0) s1
      in case open_loop 0 s2 of
           (Inl e, s3) \<Rightarrow> finish (Some e) s3
         | (Inr h, s3) \<Rightarrow> s3\<lparr>file_handle := h, with_handle := h, phase := Running\<rparr>)"

text \<open>Lines 164-167.\<close>

definition heartbeat_check :: "real \<Rightarrow> system \<Rightarrow> system" where
  "heartbeat_check current_time s =
     (if current_time - last_heartbeat_local s \<ge> heartbeat_interval
      then (status_update None None (Some (written_bytes_total s)) s)
             \<lparr>last_heartbeat_local := current_time\<rparr>
      else s)"

text \<open>
  Lines 170-177. An \<^verbatim>\<open>IOError\<close> of the flush is reported and absorbed; any other
  exception is not caught here and leaves the loop.
\<close>

definition flush_check :: "real \<Rightarrow> system \<Rightarrow> exn option \<times> system" where
  "flush_check current_time s =
     (if current_time - last_flush s \<ge> flush_interval then
        (case file_flush (file_handle s) s of
           (None, s1) \<Rightarrow> (None, s1\<lparr>last_flush := current_time\<rparr>)
         | (Some (IOError e), s1) \<Rightarrow>
             (None, status_update None (Some (FlushFailed e)) None (report (FlushFailed e) s1))
         | (Some (OtherException e), s1) \<Rightarrow> (Some (OtherException e), s1))
      else (None, s))"

text \<open>Lines 216-220: the recovery failed with an \<^verbatim>\<open>IOError\<close>; record it and leave the loop.\<close>

definition reopen_failed :: "message \<Rightarrow> system \<Rightarrow> system" where
  "reopen_failed reopen_error s =
     leave_with None
       (status_update None (Some (ReopenFailed reopen_error)) None
          (report (ReopenFailed reopen_error) s))"

text \<open>
  Lines 205-220, the handler of an \<^verbatim>\<open>IOError\<close> of the write: close the file and open it
  again for appending. Only the variable \<^verbatim>\<open>file_handle\<close> is bound to the new file. An
  exception other than \<^verbatim>\<open>IOError\<close> raised by the close or the open leaves the loop.
\<close>

definition recover :: "message \<Rightarrow> system \<Rightarrow> system" where
  "recover e s =
     (let s1 = status_update None (Some (WriteFailed e)) None (report (WriteFailed e) s)
      in case file_close (file_handle s1) s1 of
           (Some (IOError e2), s2) \<Rightarrow> reopen_failed e2 s2
         | (Some (OtherException e2), s2) \<Rightarrow> leave_with (Some (OtherException e2)) s2
         | (None, s2) \<Rightarrow>
             (case open_file (filename s2) AB s2 of
                (Inr h, s3) \<Rightarrow> s3\<lparr>file_handle := h\<rparr>
              | (Inl (IOError e2), s3) \<Rightarrow> reopen_failed e2 s3
              | (Inl (OtherException e2), s3) \<Rightarrow> leave_with (Some (OtherException e2)) s3))"

text \<open>
  Lines 187-200 with the handlers of lines 205-226: an empty chunk is skipped; a written
  chunk is counted, and the count is stored in the status record when it is a multiple
  of \<open>1024 * 1024\<close>; an \<^verbatim>\<open>IOError\<close> is reported by the inner handler, raised again and
  handled by \<open>recover\<close>; any other exception ends the loop.
\<close>

definition write_chunk :: "bytes \<Rightarrow> system \<Rightarrow> system" where
  "write_chunk data_chunk s =
     (if data_chunk \<noteq> [] then
        (case file_write (file_handle s) data_chunk s of
           (None, s1) \<Rightarrow>
             (let s2 = s1\<lparr>written_bytes_total := written_bytes_total s1 + length data_chunk\<rparr>
              in if written_bytes_total s2 mod (1024 * 1024) = 0
                 then status_update None None (Some (written_bytes_total s2)) s2
                 else s2)
         | (Some (IOError e), s1) \<Rightarrow>
             recover e (status_update None (Some (WriteFailed e)) None (report (WriteFailed e) s1))
         | (Some (OtherException e), s1) \<Rightarrow>
             leave_with None
               (status_update None (Some (UnknownException e)) None
                  (report (UnknownException e) s1)))
      else s)"

text \<open>
  Lines 162-226, one iteration of the loop. \<^verbatim>\<open>data_queue.get(timeout=0.5)\<close> on an empty
  queue waits for half a second and raises \<^verbatim>\<open>queue.Empty\<close>, and the loop continues.
\<close>

definition writer_iteration :: "system \<Rightarrow> system" where
  "writer_iteration s =
     (let current_time = clock s;
          s1 = heartbeat_check current_time s
      in case flush_check current_time s1 of
           (Some e, s2) \<Rightarrow> leave_with (Some e) s2
         | (None, s2) \<Rightarrow>
             (case data_queue s2 of
                [] \<Rightarrow> sleep (1/2) s2
              | None # q \<Rightarrow> leave_with None (s2\<lparr>data_queue := q\<rparr>)
              | Some data_chunk # q \<Rightarrow> write_chunk data_chunk (s2\<lparr>data_queue := q\<rparr>)))"

text \<open>One scheduling step of the writer thread.\<close>

definition writer_step :: "system \<Rightarrow> system" where
  "writer_step s =
     (case phase s of
        Starting \<Rightarrow> writer_start s
      | Running \<Rightarrow> writer_iteration s
      | Finished \<Rightarrow> s)"

section \<open>The supervisor\<close>

definition thread_is_alive :: "system \<Rightarrow> bool" where
  "thread_is_alive s = (phase s \<noteq> Finished)"

text \<open>
  Lines 439-440 and 456-457: a new thread running \<^verbatim>\<open>writer_thread_func\<close> on the same
  file name is created and started.
\<close>

definition start_writer_thread :: "system \<Rightarrow> system" where
  "start_writer_thread s = s\<lparr>phase := Starting\<rparr>"

text \<open>
  Lines 420-440 of the main loop: the check of the writer thread, made on every pass.
  \<open>Break\<close> leaves the main loop for the shutdown code. (The heartbeat check of lines
  442-463 restarts the writer with the same two statements.)
\<close>

definition check_writer_thread :: "system \<Rightarrow> control \<times> system" where
  "check_writer_thread s =
     (if \<not> thread_is_alive s then
        (let status = writer_status s in
         if running status then
           (let error_msg = ThreadInconsistent (error status)
            in (Break, status_update (Some False) (Some error_msg) None (report error_msg s)))
         else if data_queue s = [] then
           (Break, report (ThreadEnded (error status)) s)
         else (Continue, start_writer_thread s))
      else (Continue, s))"

section \<open>Schedules\<close>

text \<open>
  Lines 24-66 and 382-385: the module-level state when the writer thread has just been
  started on \<open>fname\<close>, in a world given by the files on disk and the time, where no
  file operation is set to fail.
\<close>

definition initial :: "string \<Rightarrow> (string \<rightharpoonup> bytes) \<Rightarrow> real \<Rightarrow> system" where
  "initial fname fs t =
     \<lparr>data_queue = [], writer_status = init_status, files = fs, handles = [],
      open_script = [], write_script = [], flush_script = [], close_script = [],
      clock = t, stderr = [], phase = Starting, filename = fname,
      written_bytes_total = 0, last_heartbeat_local = 0, last_flush = 0,
      file_handle = 0, with_handle = 0\<rparr>"

text \<open>
  The threads interleave. A schedule lists what happens in which order: the driver
  delivers a buffer to \<^verbatim>\<open>py_data_callback\<close>, the writer thread makes a step, the main
  thread puts the stop signal (lines 452 and 489; the blocking \<^verbatim>\<open>put\<close> goes through
  once the queue has room), the main thread makes its check of the writer thread (lines
  420-440), or time passes.
\<close>

datatype event = Deliver "bytes option" nat | Writer | Stop | Check | Tick real

fun step :: "event \<Rightarrow> system \<Rightarrow> system" where
  "step (Deliver buffer_ptr len) s = py_data_callback buffer_ptr len s"
| "step Writer s = writer_step s"
| "step Stop s =
     (case put_nowait stop_writer_signal (data_queue s) of
        Some q \<Rightarrow> s\<lparr>data_queue := q\<rparr>
      | None \<Rightarrow> s)"
| "step Check s = snd (check_writer_thread s)"
| "step (Tick d) s = sleep d s"

fun run :: "event list \<Rightarrow> system \<Rightarrow> system" where
  "run [] s = s"
| "run (e # es) s = run es (step e s)"





definition chunk :: "item \<Rightarrow> bytes" where
  "chunk x = (case x of None \<Rightarrow> [] | Some c \<Rightarrow> c)"

text \<open>The writer holds an open file whose path is the output file name.\<close>

definition attached :: "system \<Rightarrow> bool" where
  "attached s = (is_open (file_handle s) s \<and> path (handles s ! file_handle s) = filename s)"



section \<open>Evaluation and auxiliary facts\<close>

lemmas eval_defs = initial_def init_status_def writer_step_def writer_start_def writer_iteration_def
  heartbeat_check_def flush_check_def write_chunk_def recover_def reopen_failed_def leave_with_def
  finish_def open_file_def file_write_def file_flush_def file_close_def next_outcome_def
  is_open_def content_def status_update_def update_def report_def sleep_def
  py_data_callback_def put_nowait_def maxsize_def max_retry_count_def heartbeat_interval_def
  flush_interval_def stop_writer_signal_def chunk_def attached_def Let_def
  check_writer_thread_def thread_is_alive_def start_writer_thread_def decode_message_def





lemma heartbeat_check_fields:
  "data_queue (heartbeat_check t s) = data_queue s" "files (heartbeat_check t s) = files s"
  "write_script (heartbeat_check t s) = write_script s" "phase (heartbeat_check t s) = phase s"
  "filename (heartbeat_check t s) = filename s" "handles (heartbeat_check t s) = handles s"
  "file_handle (heartbeat_check t s) = file_handle s" "last_flush (heartbeat_check t s) = last_flush s"
  "with_handle (heartbeat_check t s) = with_handle s"
  "written_bytes_total (heartbeat_check t s) = written_bytes_total s"
  "clock (heartbeat_check t s) = clock s" "open_script (heartbeat_check t s) = open_script s"
  "close_script (heartbeat_check t s) = close_script s"
  by (simp_all add: heartbeat_check_def status_update_def)

lemma flush_check_fields:
  assumes "flush_check t s = (r, s')"
  shows "data_queue s' = data_queue s" "files s' = files s" "handles s' = handles s"
    "phase s' = phase s" "filename s' = filename s" "file_handle s' = file_handle s"
    "with_handle s' = with_handle s" "written_bytes_total s' = written_bytes_total s"
    "clock s' = clock s" "write_script s' = write_script s" "open_script s' = open_script s"
    "close_script s' = close_script s"
  using assms
  by (auto simp: flush_check_def file_flush_def status_update_def report_def Let_def
      split: if_splits outcome.splits exn.splits)





lemma deliveries_queue:
  assumes "\<forall>c\<in>set cs. c \<noteq> []"
  shows "data_queue (run (map (\<lambda>c. Deliver (Some c) (length c)) cs) s) =
     data_queue s @ map Some (take (maxsize - length (data_queue s)) cs) \<and>
   stderr (run (map (\<lambda>c. Deliver (Some c) (length c)) cs) s) =
     stderr s @ replicate (length cs - (maxsize - length (data_queue s))) QueueFull"
  using assms
proof (induction cs arbitrary: s)
  case Nil
  then show ?case by simp
next
  case (Cons c cs)
  then have c: "c \<noteq> []" and cs: "\<forall>c\<in>set cs. c \<noteq> []" by simp_all
  show ?case
  proof (cases "maxsize \<le> length (data_queue s)")
    case True
    then have st: "py_data_callback (Some c) (length c) s = report QueueFull s"
      using c by (simp add: py_data_callback_def put_nowait_def)
    show ?thesis
      using Cons.IH [OF cs, of "report QueueFull s"] True
      by (simp add: st report_def replicate_append_same)
  next
    case False
    then have st: "py_data_callback (Some c) (length c) s = s\<lparr>data_queue := data_queue s @ [Some c]\<rparr>"
      using c by (simp add: py_data_callback_def put_nowait_def)
    have "maxsize - length (data_queue s) = Suc (maxsize - Suc (length (data_queue s)))"
      using False by simp
    then show ?thesis
      using Cons.IH [OF cs, of "s\<lparr>data_queue := data_queue s @ [Some c]\<rparr>"] False
      by (simp add: st)
  qed
qed

lemmas start_defs = writer_start_def finish_def open_file_def next_outcome_def
  status_update_def update_def report_def sleep_def max_retry_count_def Let_def attached_def is_open_def

lemmas chunk_defs = write_chunk_def recover_def reopen_failed_def leave_with_def finish_def
  open_file_def file_write_def file_close_def next_outcome_def status_update_def
  update_def report_def Let_def attached_def is_open_def content_def

lemma write_chunk_recovery:
  assumes "c \<noteq> []" and "is_open (file_handle s) s"
    and "with_handle s = file_handle s \<or> \<not> is_open (with_handle s) s"
    and "next_outcome (write_script s) = Fail (IOError e)"
  shows "next_outcome (close_script s) = Success \<Longrightarrow> next_outcome (open_script s) = Success \<Longrightarrow>
      phase (write_chunk c s) = phase s \<and>
      file_handle (write_chunk c s) = length (handles s) \<and>
      attached (write_chunk c s) \<and>
      \<not> is_open (file_handle s) (write_chunk c s) \<and>
      content (filename s) (write_chunk c s) = content (filename s) s \<and>
      written_bytes_total (write_chunk c s) = written_bytes_total s \<and>
      close_script (write_chunk c s) = tl (close_script s) \<and>
      open_script (write_chunk c s) = tl (open_script s)"
    and "next_outcome (close_script s) = Success \<Longrightarrow>
      next_outcome (open_script s) = Fail (IOError e2) \<Longrightarrow>
      phase (write_chunk c s) = Finished \<and>
      writer_status (write_chunk c s) =
        \<lparr>running = False, error = Some (ReopenFailed e2),
         bytes_written = written_bytes_total s, last_heartbeat = clock s\<rparr> \<and>
      \<not> is_open (file_handle s) (write_chunk c s) \<and>
      length (handles (write_chunk c s)) = length (handles s) \<and>
      close_script (write_chunk c s) = tl (close_script s) \<and>
      open_script (write_chunk c s) = tl (open_script s)"
    and "next_outcome (close_script s) = Fail (IOError e2) \<Longrightarrow>
      phase (write_chunk c s) = Finished \<and>
      writer_status (write_chunk c s) =
        \<lparr>running = False, error = Some (ReopenFailed e2),
         bytes_written = written_bytes_total s, last_heartbeat = clock s\<rparr> \<and>
      \<not> is_open (file_handle s) (write_chunk c s) \<and>
      length (handles (write_chunk c s)) = length (handles s) \<and>
      close_script (write_chunk c s) = tl (close_script s) \<and>
      open_script (write_chunk c s) = open_script s"
  using assms by (auto simp: chunk_defs nth_append nth_list_update)

section \<open>Claims\<close>

text \<open>
  C1: a replacement worker started on the same output path keeps what the previous
  worker wrote. The code does not: \<^verbatim>\<open>writer_thread_func\<close> always opens the file with
  mode \<^verbatim>\<open>'wb'\<close> (line 148). Here a first worker writes the chunk \<open>[1, 2]\<close>, its next
  write fails and so does the reopen, and it ends with one chunk still queued; the
  supervisor starts a replacement (lines 436-440), and after the replacement's open
  the file is empty.
\<close>

theorem restart_truncates_file:
  "content ''out.bin''
     (run [Writer, Deliver (Some [1, 2]) 2, Deliver (Some [3]) 1, Deliver (Some [4]) 1, Writer, Writer]
        ((initial ''out.bin'' Map.empty 0)
           \<lparr>open_script := [Success, Fail (IOError (Text ''busy''))],
            write_script := [Success, Fail (IOError (Text ''disk error''))]\<rparr>))
     = [1, 2] \<and>
   check_writer_thread
     (run [Writer, Deliver (Some [1, 2]) 2, Deliver (Some [3]) 1, Deliver (Some [4]) 1, Writer, Writer]
        ((initial ''out.bin'' Map.empty 0)
           \<lparr>open_script := [Success, Fail (IOError (Text ''busy''))],
            write_script := [Success, Fail (IOError (Text ''disk error''))]\<rparr>))
     = (Continue, start_writer_thread
     (run [Writer, Deliver (Some [1, 2]) 2, Deliver (Some [3]) 1, Deliver (Some [4]) 1, Writer, Writer]
        ((initial ''out.bin'' Map.empty 0)
           \<lparr>open_script := [Success, Fail (IOError (Text ''busy''))],
            write_script := [Success, Fail (IOError (Text ''disk error''))]\<rparr>))) \<and>
   phase (writer_step (start_writer_thread
     (run [Writer, Deliver (Some [1, 2]) 2, Deliver (Some [3]) 1, Deliver (Some [4]) 1, Writer, Writer]
        ((initial ''out.bin'' Map.empty 0)
           \<lparr>open_script := [Success, Fail (IOError (Text ''busy''))],
            write_script := [Success, Fail (IOError (Text ''disk error''))]\<rparr>)))) = Running \<and>
   content ''out.bin'' (writer_step (start_writer_thread
     (run [Writer, Deliver (Some [1, 2]) 2, Deliver (Some [3]) 1, Deliver (Some [4]) 1, Writer, Writer]
        ((initial ''out.bin'' Map.empty 0)
           \<lparr>open_script := [Success, Fail (IOError (Text ''busy''))],
            write_script := [Success, Fail (IOError (Text ''disk error''))]\<rparr>))))
     = []"
  by (simp add: eval_defs open_loop.simps [of 0])



text \<open>
  C3, as stated: with the thread dead and the register still running, a queue that holds
  data leads to a replacement worker. The code does not look at the queue in this case:
  with one chunk queued it records the inconsistency, clears the running flag and leaves
  the main loop, and no thread is started.
\<close>

theorem inconsistent_thread_not_restarted:
  "check_writer_thread
     ((initial ''out.bin'' Map.empty 0)
        \<lparr>data_queue := [Some [1]], writer_status := init_status\<lparr>running := True\<rparr>, phase := Finished\<rparr>)
   = (Break,
      (initial ''out.bin'' Map.empty 0)
        \<lparr>data_queue := [Some [1]],
         writer_status := \<lparr>running = False, error = Some (ThreadInconsistent None),
                           bytes_written = 0, last_heartbeat = 0\<rparr>,
         stderr := [ThreadInconsistent None], phase := Finished\<rparr>)"
  by (simp add: check_writer_thread_def thread_is_alive_def initial_def init_status_def
      status_update_def update_def report_def Let_def)

text \<open>
  C3, amended: the thread check of the main loop (lines 420-440) does one of four
  things. (1) The thread is no longer executing and the register still reads running:
  it prints the inconsistency, records it as the error of the register, marks the
  register not running and leaves the main loop, whatever the queue holds; the queue
  is left as it is and no replacement worker is started. (2) The thread is no longer
  executing, the register reads not running and the queue is empty: it prints that
  the thread has ended and leaves the main loop. (3) The thread is no longer
  executing, the register reads not running and the queue holds data: it starts a
  replacement worker and the loop goes on. (4) The thread is executing: nothing is
  changed. So this check starts a replacement worker exactly in case (3).
\<close>

theorem check_writer_thread_cases:
  "(\<not> thread_is_alive s \<longrightarrow> running (writer_status s) \<longrightarrow>
      check_writer_thread s =
        (Break,
         s\<lparr>writer_status := (writer_status s)
              \<lparr>running := False,
               error := Some (ThreadInconsistent (error (writer_status s))),
               last_heartbeat := clock s\<rparr>,
           stderr := stderr s @ [ThreadInconsistent (error (writer_status s))]\<rparr>) \<and>
      data_queue (snd (check_writer_thread s)) = data_queue s \<and>
      \<not> thread_is_alive (snd (check_writer_thread s))) \<and>
   (\<not> thread_is_alive s \<longrightarrow> \<not> running (writer_status s) \<longrightarrow> data_queue s = [] \<longrightarrow>
      check_writer_thread s
        = (Break, s\<lparr>stderr := stderr s @ [ThreadEnded (error (writer_status s))]\<rparr>)) \<and>
   (\<not> thread_is_alive s \<longrightarrow> \<not> running (writer_status s) \<longrightarrow> data_queue s \<noteq> [] \<longrightarrow>
      check_writer_thread s = (Continue, start_writer_thread s) \<and>
      thread_is_alive (start_writer_thread s)) \<and>
   (thread_is_alive s \<longrightarrow> check_writer_thread s = (Continue, s)) \<and>
   ((\<not> thread_is_alive s \<and> thread_is_alive (snd (check_writer_thread s))) =
    (\<not> thread_is_alive s \<and> \<not> running (writer_status s) \<and> data_queue s \<noteq> []))"
  by (simp add: check_writer_thread_def thread_is_alive_def Let_def status_update_def
      update_def report_def start_writer_thread_def)

theorem check_writer_thread_cases_witness:
  "\<not> thread_is_alive ((initial ''out.bin'' Map.empty 0)
        \<lparr>data_queue := [Some [1]], writer_status := init_status\<lparr>running := True\<rparr>,
         phase := Finished\<rparr>) \<and>
   running (writer_status ((initial ''out.bin'' Map.empty 0)
        \<lparr>data_queue := [Some [1]], writer_status := init_status\<lparr>running := True\<rparr>,
         phase := Finished\<rparr>)) \<and>
   fst (check_writer_thread ((initial ''out.bin'' Map.empty 0)
        \<lparr>data_queue := [Some [1]], writer_status := init_status\<lparr>running := True\<rparr>,
         phase := Finished\<rparr>)) = Break \<and>
   data_queue (snd (check_writer_thread ((initial ''out.bin'' Map.empty 0)
        \<lparr>data_queue := [Some [1]], writer_status := init_status\<lparr>running := True\<rparr>,
         phase := Finished\<rparr>))) = [Some [1]] \<and>
   \<not> thread_is_alive (snd (check_writer_thread ((initial ''out.bin'' Map.empty 0)
        \<lparr>data_queue := [Some [1]], writer_status := init_status\<lparr>running := True\<rparr>,
         phase := Finished\<rparr>))) \<and>
   \<not> thread_is_alive ((initial ''out.bin'' Map.empty 0)
        \<lparr>data_queue := [Some [1]], writer_status := init_status, phase := Finished\<rparr>) \<and>
   \<not> running (writer_status ((initial ''out.bin'' Map.empty 0)
        \<lparr>data_queue := [Some [1]], writer_status := init_status, phase := Finished\<rparr>)) \<and>
   fst (check_writer_thread ((initial ''out.bin'' Map.empty 0)
        \<lparr>data_queue := [Some [1]], writer_status := init_status, phase := Finished\<rparr>)) = Continue \<and>
   thread_is_alive (snd (check_writer_thread ((initial ''out.bin'' Map.empty 0)
        \<lparr>data_queue := [Some [1]], writer_status := init_status, phase := Finished\<rparr>)))"
  using check_writer_thread_cases [of "(initial ''out.bin'' Map.empty 0)
        \<lparr>data_queue := [Some [1]], writer_status := init_status\<lparr>running := True\<rparr>,
         phase := Finished\<rparr>"]
    check_writer_thread_cases [of "(initial ''out.bin'' Map.empty 0)
        \<lparr>data_queue := [Some [1]], writer_status := init_status, phase := Finished\<rparr>"]
  by (simp add: thread_is_alive_def initial_def init_status_def start_writer_thread_def)




text \<open>
  C5: the push is \<^verbatim>\<open>put_nowait\<close>, which returns at once: a chunk is appended when the
  queue holds fewer than 4096 entries, and otherwise it is dropped with one warning and
  the queue is left as it is. Delivering \<open>maxsize + k\<close> chunks to an empty queue with no
  consumption in between keeps exactly the first \<open>maxsize\<close> of them and gives exactly
  \<open>k\<close> warnings.
\<close>

theorem overflow_drops_newest:
  assumes "\<forall>c\<in>set cs. c \<noteq> []" and "data_queue s = []" and "length cs = maxsize + k"
  shows "(\<forall>c t. c \<noteq> [] \<longrightarrow> py_data_callback (Some c) (length c) t =
            (if length (data_queue t) < maxsize
             then t\<lparr>data_queue := data_queue t @ [Some c]\<rparr>
             else t\<lparr>stderr := stderr t @ [QueueFull]\<rparr>)) \<and>
         data_queue (run (map (\<lambda>c. Deliver (Some c) (length c)) cs) s) = map Some (take maxsize cs) \<and>
         stderr (run (map (\<lambda>c. Deliver (Some c) (length c)) cs) s) = stderr s @ replicate k QueueFull"
proof -
  have "\<forall>c t. c \<noteq> [] \<longrightarrow> py_data_callback (Some c) (length c) t =
            (if length (data_queue t) < maxsize
             then t\<lparr>data_queue := data_queue t @ [Some c]\<rparr>
             else t\<lparr>stderr := stderr t @ [QueueFull]\<rparr>)"
    by (simp add: py_data_callback_def put_nowait_def report_def)
  then show ?thesis
    using deliveries_queue [OF assms(1), of s] assms(2,3) by simp
qed

theorem overflow_drops_newest_witness:
  "data_queue (initial ''out.bin'' Map.empty 0) = [] \<and>
   length (replicate 4098 [7::byte]) = maxsize + 2 \<and>
   data_queue (run (map (\<lambda>c. Deliver (Some c) (length c)) (replicate 4098 [7]))
      (initial ''out.bin'' Map.empty 0)) = map Some (take maxsize (replicate 4098 [7])) \<and>
   stderr (run (map (\<lambda>c. Deliver (Some c) (length c)) (replicate 4098 [7]))
      (initial ''out.bin'' Map.empty 0)) = [QueueFull, QueueFull]"
proof -
  have h1: "\<forall>c\<in>set (replicate 4098 [7::byte]). c \<noteq> []" by simp
  have h2: "data_queue (initial ''out.bin'' Map.empty 0) = []" by (simp add: initial_def)
  have h3: "length (replicate 4098 [7::byte]) = maxsize + 2" by (simp add: maxsize_def)
  have h4: "stderr (initial ''out.bin'' Map.empty 0) = []" by (simp add: initial_def)
  have r: "replicate 2 QueueFull = [QueueFull, QueueFull]" by (simp add: numeral_2_eq_2)
  from overflow_drops_newest [OF h1 h2 h3] h1 h2 h3 show ?thesis
    unfolding h4 r by simp
qed

text \<open>
  C6: the byte count is pushed to the register whenever the total crosses a megabyte
  boundary. The code pushes it only when the total is an exact multiple of
  \<open>1024 * 1024\<close> (line 192): after chunks of 1048575 and 2 bytes the writer has counted
  1048577 bytes, and the register still holds 0.
\<close>

theorem megabyte_boundary_missed:
  "written_bytes_total
     (run [Deliver (Some (replicate 1048575 0)) 1048575, Deliver (Some [0, 0]) 2, Writer, Writer]
        (run [Writer] (initial ''out.bin'' Map.empty 0))) = 1048577 \<and>
   bytes_written (writer_status
     (run [Deliver (Some (replicate 1048575 0)) 1048575, Deliver (Some [0, 0]) 2, Writer, Writer]
        (run [Writer] (initial ''out.bin'' Map.empty 0)))) = 0"
  by (simp add: eval_defs open_loop.simps [of 0])

text \<open>
  C7: the file is opened at most three times, with one second of sleep after each
  failed attempt but the last; an attempt that succeeds leads to the running loop, and
  three failures end the thread with the register not running and holding the error of
  the last open.
\<close>

theorem open_retry_bounded:
  "(next_outcome (open_script s) = Success \<longrightarrow>
      phase (writer_start s) = Running \<and> attached (writer_start s) \<and>
      clock (writer_start s) = clock s \<and>
      open_script (writer_start s) = tl (open_script s)) \<and>
   (next_outcome (open_script s) = Fail (IOError e1) \<longrightarrow> next_outcome (tl (open_script s)) = Success \<longrightarrow>
      phase (writer_start s) = Running \<and> attached (writer_start s) \<and>
      clock (writer_start s) = clock s + 1 \<and>
      open_script (writer_start s) = tl (tl (open_script s))) \<and>
   (next_outcome (open_script s) = Fail (IOError e1) \<longrightarrow> next_outcome (tl (open_script s)) = Fail (IOError e2) \<longrightarrow>
    next_outcome (tl (tl (open_script s))) = Success \<longrightarrow>
      phase (writer_start s) = Running \<and> attached (writer_start s) \<and>
      clock (writer_start s) = clock s + 2 \<and>
      open_script (writer_start s) = tl (tl (tl (open_script s)))) \<and>
   (next_outcome (open_script s) = Fail (IOError e1) \<longrightarrow> next_outcome (tl (open_script s)) = Fail (IOError e2) \<longrightarrow>
    next_outcome (tl (tl (open_script s))) = Fail (IOError e3) \<longrightarrow>
      phase (writer_start s) = Finished \<and>
      writer_status (writer_start s) =
        \<lparr>running = False, error = Some (InitFailed (OpenExhausted e3)), bytes_written = 0,
         last_heartbeat = clock s + 2\<rparr> \<and>
      clock (writer_start s) = clock s + 2 \<and> handles (writer_start s) = handles s \<and>
      open_script (writer_start s) = tl (tl (tl (open_script s))))"
proof (intro conjI impI)
  assume "next_outcome (open_script s) = Success"
  then show "phase (writer_start s) = Running" "attached (writer_start s)"
    "clock (writer_start s) = clock s" "open_script (writer_start s) = tl (open_script s)"
    by (simp_all add: start_defs open_loop.simps [of 0])
next
  assume "next_outcome (open_script s) = Fail (IOError e1)" "next_outcome (tl (open_script s)) = Success"
  then show "phase (writer_start s) = Running" "attached (writer_start s)"
    "clock (writer_start s) = clock s + 1" "open_script (writer_start s) = tl (tl (open_script s))"
    by (simp_all add: start_defs open_loop.simps [of 0] open_loop.simps [of "Suc 0"])
next
  assume "next_outcome (open_script s) = Fail (IOError e1)" "next_outcome (tl (open_script s)) = Fail (IOError e2)"
    "next_outcome (tl (tl (open_script s))) = Success"
  then show "phase (writer_start s) = Running" "attached (writer_start s)"
    "clock (writer_start s) = clock s + 2"
    "open_script (writer_start s) = tl (tl (tl (open_script s)))"
    by (simp_all add: start_defs open_loop.simps [of 0] open_loop.simps [of "Suc 0"]
        open_loop.simps [of "Suc (Suc 0)"])
next
  assume "next_outcome (open_script s) = Fail (IOError e1)" "next_outcome (tl (open_script s)) = Fail (IOError e2)"
    "next_outcome (tl (tl (open_script s))) = Fail (IOError e3)"
  then show "phase (writer_start s) = Finished"
    "writer_status (writer_start s) =
        \<lparr>running = False, error = Some (InitFailed (OpenExhausted e3)), bytes_written = 0,
         last_heartbeat = clock s + 2\<rparr>"
    "clock (writer_start s) = clock s + 2" "handles (writer_start s) = handles s"
    "open_script (writer_start s) = tl (tl (tl (open_script s)))"
    by (simp_all add: start_defs open_loop.simps [of 0] open_loop.simps [of "Suc 0"]
        open_loop.simps [of "Suc (Suc 0)"])
qed

theorem open_retry_bounded_witness:
  "next_outcome (open_script ((initial ''out.bin'' Map.empty 0)
      \<lparr>open_script := [Fail (IOError (Text ''denied'')), Fail (IOError (Text ''denied'')),
                       Fail (IOError (Text ''busy''))]\<rparr>))
     = Fail (IOError (Text ''denied'')) \<and>
   phase (writer_start ((initial ''out.bin'' Map.empty 0)
      \<lparr>open_script := [Fail (IOError (Text ''denied'')), Fail (IOError (Text ''denied'')),
                       Fail (IOError (Text ''busy''))]\<rparr>))
     = Finished \<and>
   writer_status (writer_start ((initial ''out.bin'' Map.empty 0)
      \<lparr>open_script := [Fail (IOError (Text ''denied'')), Fail (IOError (Text ''denied'')),
                       Fail (IOError (Text ''busy''))]\<rparr>))
     = \<lparr>running = False, error = Some (InitFailed (OpenExhausted (Text ''busy''))), bytes_written = 0,
        last_heartbeat = 2\<rparr>"
  using open_retry_bounded [of "(initial ''out.bin'' Map.empty 0)
      \<lparr>open_script := [Fail (IOError (Text ''denied'')), Fail (IOError (Text ''denied'')),
                       Fail (IOError (Text ''busy''))]\<rparr>"
      "Text ''denied''" "Text ''denied''" "Text ''busy''"]
  by (simp add: initial_def next_outcome_def)

text \<open>
  C8: when the write of a chunk fails with an \<^verbatim>\<open>IOError\<close>, the worker makes one
  recovery: it closes the file and opens it once more, for appending. If that succeeds
  the loop goes on with the new file, whose content is what the file held; if the open
  (or the close before it) fails, the thread ends with the register not running and
  holding that error. No second close or open is made.
\<close>

theorem write_failure_one_recovery:
  assumes "phase s = Running" and "data_queue s = Some c # q" and "c \<noteq> []"
    and "fst (flush_check (clock s) (heartbeat_check (clock s) s)) = None"
    and "is_open (file_handle s) s"
    and "with_handle s = file_handle s \<or> \<not> is_open (with_handle s) s"
    and "next_outcome (write_script s) = Fail (IOError e)"
  shows "(next_outcome (close_script s) = Success \<longrightarrow> next_outcome (open_script s) = Success \<longrightarrow>
      phase (writer_iteration s) = Running \<and>
      file_handle (writer_iteration s) = length (handles s) \<and>
      attached (writer_iteration s) \<and>
      \<not> is_open (file_handle s) (writer_iteration s) \<and>
      content (filename s) (writer_iteration s) = content (filename s) s \<and>
      close_script (writer_iteration s) = tl (close_script s) \<and>
      open_script (writer_iteration s) = tl (open_script s)) \<and>
    (next_outcome (close_script s) = Success \<longrightarrow>
     next_outcome (open_script s) = Fail (IOError e2) \<longrightarrow>
      phase (writer_iteration s) = Finished \<and>
      writer_status (writer_iteration s) =
        \<lparr>running = False, error = Some (ReopenFailed e2),
         bytes_written = written_bytes_total s, last_heartbeat = clock s\<rparr> \<and>
      \<not> is_open (file_handle s) (writer_iteration s) \<and>
      length (handles (writer_iteration s)) = length (handles s) \<and>
      close_script (writer_iteration s) = tl (close_script s) \<and>
      open_script (writer_iteration s) = tl (open_script s)) \<and>
    (next_outcome (close_script s) = Fail (IOError e2) \<longrightarrow>
      phase (writer_iteration s) = Finished \<and>
      writer_status (writer_iteration s) =
        \<lparr>running = False, error = Some (ReopenFailed e2),
         bytes_written = written_bytes_total s, last_heartbeat = clock s\<rparr> \<and>
      \<not> is_open (file_handle s) (writer_iteration s) \<and>
      length (handles (writer_iteration s)) = length (handles s) \<and>
      close_script (writer_iteration s) = tl (close_script s) \<and>
      open_script (writer_iteration s) = open_script s)"
proof -
  let ?s1 = "heartbeat_check (clock s) s"
  obtain s2 where fl: "flush_check (clock s) ?s1 = (None, s2)"
    using assms(4) by (cases "flush_check (clock s) ?s1") simp
  let ?s3 = "s2\<lparr>data_queue := q\<rparr>"
  note ff = flush_check_fields [OF fl]
  have w: "writer_iteration s = write_chunk c ?s3"
    using assms(2) ff(1) by (simp add: writer_iteration_def Let_def fl heartbeat_check_fields)
  have eq: "handles ?s3 = handles s" "file_handle ?s3 = file_handle s" "with_handle ?s3 = with_handle s"
    "filename ?s3 = filename s" "files ?s3 = files s" "phase ?s3 = Running"
    "written_bytes_total ?s3 = written_bytes_total s" "clock ?s3 = clock s"
    "write_script ?s3 = write_script s" "open_script ?s3 = open_script s"
    "close_script ?s3 = close_script s"
    using ff assms(1) by (simp_all add: heartbeat_check_fields)
  have c3: "content (filename s) ?s3 = content (filename s) s"
    using eq by (simp add: content_def)
  have a: "is_open (file_handle ?s3) ?s3"
    "with_handle ?s3 = file_handle ?s3 \<or> \<not> is_open (with_handle ?s3) ?s3"
    using assms(5,6) eq by (simp_all add: is_open_def)
  have o: "next_outcome (write_script ?s3) = Fail (IOError e)"
    using assms(7) eq by simp
  note r1 = write_chunk_recovery(1) [OF assms(3) a o]
  note r2 = write_chunk_recovery(2) [OF assms(3) a o, of e2]
  note r3 = write_chunk_recovery(3) [OF assms(3) a o, of e2]
  show ?thesis
  proof (intro conjI impI)
    assume "next_outcome (close_script s) = Success" "next_outcome (open_script s) = Success"
    then have "next_outcome (close_script ?s3) = Success" "next_outcome (open_script ?s3) = Success"
      using eq by simp_all
    from r1 [OF this]
    show "phase (writer_iteration s) = Running"
      "file_handle (writer_iteration s) = length (handles s)"
      "attached (writer_iteration s)"
      "\<not> is_open (file_handle s) (writer_iteration s)"
      "content (filename s) (writer_iteration s) = content (filename s) s"
      "close_script (writer_iteration s) = tl (close_script s)"
      "open_script (writer_iteration s) = tl (open_script s)"
      unfolding w using eq c3 by simp_all
  next
    assume "next_outcome (close_script s) = Success"
      "next_outcome (open_script s) = Fail (IOError e2)"
    then have "next_outcome (close_script ?s3) = Success"
      "next_outcome (open_script ?s3) = Fail (IOError e2)"
      using eq by simp_all
    from r2 [OF this]
    show "phase (writer_iteration s) = Finished"
      "writer_status (writer_iteration s) =
        \<lparr>running = False, error = Some (ReopenFailed e2),
         bytes_written = written_bytes_total s, last_heartbeat = clock s\<rparr>"
      "\<not> is_open (file_handle s) (writer_iteration s)"
      "length (handles (writer_iteration s)) = length (handles s)"
      "close_script (writer_iteration s) = tl (close_script s)"
      "open_script (writer_iteration s) = tl (open_script s)"
      unfolding w using eq by simp_all
  next
    assume "next_outcome (close_script s) = Fail (IOError e2)"
    then have "next_outcome (close_script ?s3) = Fail (IOError e2)"
      using eq by simp
    from r3 [OF this]
    show "phase (writer_iteration s) = Finished"
      "writer_status (writer_iteration s) =
        \<lparr>running = False, error = Some (ReopenFailed e2),
         bytes_written = written_bytes_total s, last_heartbeat = clock s\<rparr>"
      "\<not> is_open (file_handle s) (writer_iteration s)"
      "length (handles (writer_iteration s)) = length (handles s)"
      "close_script (writer_iteration s) = tl (close_script s)"
      "open_script (writer_iteration s) = open_script s"
      unfolding w using eq by simp_all
  qed
qed

theorem write_failure_one_recovery_witness:
  "phase (run [Writer, Deliver (Some [1]) 1] ((initial ''out.bin'' Map.empty 0)
      \<lparr>open_script := [Success, Fail (IOError (Text ''gone''))],
       write_script := [Fail (IOError (Text ''disk full''))]\<rparr>)) = Running \<and>
   next_outcome (write_script (run [Writer, Deliver (Some [1]) 1] ((initial ''out.bin'' Map.empty 0)
      \<lparr>open_script := [Success, Fail (IOError (Text ''gone''))],
       write_script := [Fail (IOError (Text ''disk full''))]\<rparr>))) = Fail (IOError (Text ''disk full'')) \<and>
   phase (writer_iteration (run [Writer, Deliver (Some [1]) 1] ((initial ''out.bin'' Map.empty 0)
      \<lparr>open_script := [Success, Fail (IOError (Text ''gone''))],
       write_script := [Fail (IOError (Text ''disk full''))]\<rparr>))) = Finished \<and>
   writer_status (writer_iteration (run [Writer, Deliver (Some [1]) 1] ((initial ''out.bin'' Map.empty 0)
      \<lparr>open_script := [Success, Fail (IOError (Text ''gone''))],
       write_script := [Fail (IOError (Text ''disk full''))]\<rparr>)))
     = \<lparr>running = False, error = Some (ReopenFailed (Text ''gone'')), bytes_written = 0,
        last_heartbeat = 0\<rparr>"
  using write_failure_one_recovery [of "run [Writer, Deliver (Some [1]) 1] ((initial ''out.bin'' Map.empty 0)
      \<lparr>open_script := [Success, Fail (IOError (Text ''gone''))],
       write_script := [Fail (IOError (Text ''disk full''))]\<rparr>)"
      "[1]" "[]" "Text ''disk full''" "Text ''gone''"]
  by (simp add: eval_defs open_loop.simps [of 0])

text \<open>
  C9: on every exit path the open file is closed before the worker ends. The code misses
  this after a recovery: the \<^verbatim>\<open>with\<close> statement closes the file object it was entered
  with, not the one the recovery bound to \<^verbatim>\<open>file_handle\<close> (line 214). Here a write
  fails, the reopen succeeds, and the stop signal ends the loop: the thread has ended,
  the register is not running, the first file object is closed and the second is still
  open.
\<close>

theorem reopened_file_left_open:
  "phase (run [Writer, Deliver (Some [1]) 1, Writer, Stop, Writer]
       ((initial ''out.bin'' Map.empty 0)
          \<lparr>write_script := [Fail (IOError (Text ''disk full''))]\<rparr>)) = Finished \<and>
   \<not> running (writer_status (run [Writer, Deliver (Some [1]) 1, Writer, Stop, Writer]
       ((initial ''out.bin'' Map.empty 0)
          \<lparr>write_script := [Fail (IOError (Text ''disk full''))]\<rparr>))) \<and>
   handles (run [Writer, Deliver (Some [1]) 1, Writer, Stop, Writer]
       ((initial ''out.bin'' Map.empty 0)
          \<lparr>write_script := [Fail (IOError (Text ''disk full''))]\<rparr>))
     = [\<lparr>path = ''out.bin'', closed = True\<rparr>, \<lparr>path = ''out.bin'', closed = False\<rparr>]"
  by (simp add: eval_defs open_loop.simps [of 0])

text \<open>
  C10: every call of \<open>update\<close> sets the heartbeat to the current time, whichever
  arguments are given; so an update that only records an error keeps a running worker
  alive for \<open>is_alive\<close> until the timeout has passed since that update.
\<close>

theorem update_refreshes_heartbeat:
  "last_heartbeat (update now r e b st) = now \<and>
   (running st \<longrightarrow> t - now < timeout_seconds \<longrightarrow>
      is_alive t timeout_seconds (update now None (Some msg) None st))"
  by (simp add: update_def is_alive_def)

theorem update_refreshes_heartbeat_witness:
  "running (init_status\<lparr>running := True\<rparr>) \<and> (12::real) - 5 < 10 \<and>
   is_alive 12 10 (update 5 None (Some (WriteFailed (Text ''disk full''))) None (init_status\<lparr>running := True\<rparr>))"
  using update_refreshes_heartbeat [of 5 None "Some (WriteFailed (Text ''disk full''))" None "init_status\<lparr>running := True\<rparr>" 12 10 "WriteFailed (Text ''disk full'')"]
  by (simp add: init_status_def)

end
